theory Spec2Isabelle
  imports Main
begin

section \<open>Python values and string primitives\<close>

text \<open>
  A cell of a pandas table, or the argument of one of the helper functions: Python's
  \<^verbatim>\<open>None\<close>, a missing value (\<^verbatim>\<open>NaN\<close> or \<^verbatim>\<open>pd.NA\<close>), an integer,
  or a string. Text is modelled as ASCII: a \<^typ>\<open>string\<close> is the list of its characters,
  and the character classes below are the ASCII part of Python's \<^verbatim>\<open>str\<close> methods.
  A floating point cell is represented by the text that \<^verbatim>\<open>str\<close> gives for it.
\<close>

datatype cell = PyNone | PyNaN | PyInt int | PyStr string

text \<open>\<^verbatim>\<open>pd.isna(v)\<close>, which is also true of \<^verbatim>\<open>None\<close>.\<close>

fun isna :: "cell \<Rightarrow> bool" where
  "isna PyNone = True"
| "isna PyNaN = True"
| "isna (PyInt i) = False"
| "isna (PyStr s) = False"

text \<open>The decimal digits of an integer that is not negative, as \<^verbatim>\<open>str\<close> prints
  them.\<close>

definition digit_char :: "int \<Rightarrow> char" where
  "digit_char d =
     (if d = 0 then CHR ''0'' else if d = 1 then CHR ''1'' else if d = 2 then CHR ''2''
      else if d = 3 then CHR ''3'' else if d = 4 then CHR ''4'' else if d = 5 then CHR ''5''
      else if d = 6 then CHR ''6'' else if d = 7 then CHR ''7'' else if d = 8 then CHR ''8''
      else CHR ''9'')"

function digits_of_int :: "int \<Rightarrow> string" where
  "digits_of_int n =
     (if n < 10 then [digit_char n]
      else digits_of_int (n div 10) @ [digit_char (n mod 10)])"
  by pat_completeness auto
termination
  by (relation "measure nat") auto

declare digits_of_int.simps [simp del]

text \<open>\<^verbatim>\<open>str(v)\<close>.\<close>

fun py_str :: "cell \<Rightarrow> string" where
  "py_str PyNone = ''None''"
| "py_str PyNaN = ''nan''"
| "py_str (PyInt i) = (if i < 0 then CHR ''-'' # digits_of_int (- i) else digits_of_int i)"
| "py_str (PyStr s) = s"

text \<open>\<^verbatim>\<open>c.isspace()\<close> on ASCII: tab, line feed, vertical tab, form feed, carriage
  return, the separators 0x1C to 0x1F, and the space.\<close>

definition isspace :: "char \<Rightarrow> bool" where
  "isspace c = (let n = (of_char c :: nat) in (9 \<le> n \<and> n \<le> 13) \<or> (28 \<le> n \<and> n \<le> 32))"

definition isdigit_char :: "char \<Rightarrow> bool" where
  "isdigit_char c = (let n = (of_char c :: nat) in 48 \<le> n \<and> n \<le> 57)"

definition isupper_char :: "char \<Rightarrow> bool" where
  "isupper_char c = (let n = (of_char c :: nat) in 65 \<le> n \<and> n \<le> 90)"

definition islower_char :: "char \<Rightarrow> bool" where
  "islower_char c = (let n = (of_char c :: nat) in 97 \<le> n \<and> n \<le> 122)"

definition upper_char :: "char \<Rightarrow> char" where
  "upper_char c = (if islower_char c then char_of ((of_char c :: nat) - 32) else c)"

definition lower_char :: "char \<Rightarrow> char" where
  "lower_char c = (if isupper_char c then char_of ((of_char c :: nat) + 32) else c)"

text \<open>\<^verbatim>\<open>s.upper()\<close>, \<^verbatim>\<open>s.lower()\<close>, \<^verbatim>\<open>s.strip()\<close>, \<^verbatim>\<open>s.isdigit()\<close>.\<close>

definition upper :: "string \<Rightarrow> string" where
  "upper s = map upper_char s"

definition lower :: "string \<Rightarrow> string" where
  "lower s = map lower_char s"

definition strip :: "string \<Rightarrow> string" where
  "strip s = rev (dropWhile isspace (rev (dropWhile isspace s)))"

definition isdigit :: "string \<Rightarrow> bool" where
  "isdigit s = (s \<noteq> [] \<and> list_all isdigit_char s)"

text \<open>
  \<^verbatim>\<open>s.zfill(width)\<close>: a string of at least \<open>width\<close> characters is returned as it is;
  a shorter one is filled with \<^verbatim>\<open>'0'\<close>, and the zeros go after a leading
  \<^verbatim>\<open>'+'\<close> or \<^verbatim>\<open>'-'\<close> sign when there is one.
\<close>

definition zfill :: "nat \<Rightarrow> string \<Rightarrow> string" where
  "zfill width s =
     (if width \<le> length s then s
      else (case s of
              [] \<Rightarrow> replicate width CHR ''0''
            | c # rest \<Rightarrow>
                if c = CHR ''+'' \<or> c = CHR ''-''
                then c # replicate (width - length s) CHR ''0'' @ rest
                else replicate (width - length s) CHR ''0'' @ s))"

text \<open>The slice \<^verbatim>\<open>s[-n:]\<close> for a positive \<open>n\<close>: the last \<open>n\<close> characters.\<close>

definition last_n :: "nat \<Rightarrow> string \<Rightarrow> string" where
  "last_n n s = drop (length s - n) s"

section \<open>The code normalizer (location_codes_finder.py)\<close>

definition format_code_4 :: "cell \<Rightarrow> string option" where
  "format_code_4 code =
     (if code = PyNone \<or> isna code then None
      else let s = upper (strip (py_str code)) in
        if s = [] then None
        else if isdigit s then Some (last_n 4 (zfill 4 s))
        else Some (zfill 4 s))"

section \<open>The pipeline's re-normalization (main_logic.py)\<close>

text \<open>\<^verbatim>\<open>re.fullmatch(r"\d+", s)\<close>: one or more digits and nothing else.\<close>

definition fullmatch_digits :: "string \<Rightarrow> bool" where
  "fullmatch_digits s = (s \<noteq> [] \<and> list_all isdigit_char s)"

definition normalize_loc_code :: "cell \<Rightarrow> string" where
  "normalize_loc_code v =
     (if v = PyNone then []
      else let s = upper (strip (py_str v)) in
        if s = [] then []
        else if fullmatch_digits s then zfill 4 s
        else s)"

text \<open>One element of \<^verbatim>\<open>_normalize_loc_code_series\<close>:
  \<^verbatim>\<open>s.fillna("").astype(str).map(_normalize_loc_code)\<close>.\<close>

definition fillna :: "cell \<Rightarrow> cell \<Rightarrow> cell" where
  "fillna d v = (if isna v then d else v)"

definition normalize_loc_code_series :: "cell \<Rightarrow> cell" where
  "normalize_loc_code_series v = PyStr (normalize_loc_code (PyStr (py_str (fillna (PyStr []) v))))"

section \<open>Rows of a table\<close>

text \<open>
  A row of a pandas table is the list of its column labels with the cell under each, in
  column order. \<^verbatim>\<open>r.get(k, d)\<close> reads a cell and gives \<open>d\<close> when the table has no
  column \<open>k\<close>. The tables read by \<^verbatim>\<open>read_excel\<close> and \<^verbatim>\<open>read_csv\<close> have distinct
  column labels.
\<close>

type_synonym row = "(string \<times> cell) list"

definition row_get :: "row \<Rightarrow> string \<Rightarrow> cell \<Rightarrow> cell" where
  "row_get r k d = (case map_of r k of None \<Rightarrow> d | Some v \<Rightarrow> v)"

section \<open>The location code finder (location_codes_finder.py)\<close>

text \<open>\<^verbatim>\<open>s.split()\<close>: the maximal runs of characters that are not white space.
  The second argument is the word read so far.\<close>

primrec split_from :: "string \<Rightarrow> string \<Rightarrow> string list" where
  "split_from [] cur = (if cur = [] then [] else [cur])"
| "split_from (c # cs) cur =
     (if isspace c then (if cur = [] then split_from cs [] else cur # split_from cs [])
      else split_from cs (cur @ [c]))"

definition split_ws :: "string \<Rightarrow> string list" where
  "split_ws s = split_from s []"

text \<open>\<^verbatim>\<open>s.replace(" ", "")\<close>: only the space character is removed.\<close>

definition remove_spaces :: "string \<Rightarrow> string" where
  "remove_spaces s = filter (\<lambda>c. c \<noteq> CHR '' '') s"

definition combine_addr :: "cell \<Rightarrow> cell \<Rightarrow> cell \<Rightarrow> string option" where
  "combine_addr street city state =
     (if isna street \<or> isna city \<or> isna state then None
      else let street_str = strip (py_str street);
               city_str = strip (py_str city);
               state_str = strip (py_str state) in
        if street_str = [] \<or> city_str = [] \<or> state_str = [] then None
        else (case (split_ws street_str, split_ws city_str) of
                (street0 # _, city0 # _) \<Rightarrow>
                  Some (upper (remove_spaces (street0 @ city0 @ state_str)))
              | _ \<Rightarrow> None))"

text \<open>\<^verbatim>\<open>Series.unique()\<close>: the first occurrence of every value, in order.\<close>

definition unique :: "'a list \<Rightarrow> 'a list" where
  "unique xs = rev (remdups (rev xs))"

record finder =
  master_table :: "row list"
  codes_list :: "string list"
  codes_set_raw :: "string set"
  codes_set_4 :: "string set"
  address_to_code :: "string \<rightharpoonup> string"

text \<open>The key of a master row, and its code as \<^verbatim>\<open>__init__\<close> reads it.\<close>

definition master_key :: "row \<Rightarrow> string option" where
  "master_key r =
     combine_addr (row_get r ''Loc_Address'' (PyStr [])) (row_get r ''Loc_City'' (PyStr []))
       (row_get r ''Loc_ST'' (PyStr []))"

definition master_code :: "row \<Rightarrow> string" where
  "master_code r = upper (strip (py_str (row_get r ''Loc Code'' (PyStr []))))"

text \<open>\<^verbatim>\<open>dict(pairs)\<close> of the pairs whose key is neither \<^verbatim>\<open>None\<close> nor empty: the
  pairs are stored one after the other, a later pair replacing an earlier one with the
  same key.\<close>

definition dict_of_pairs :: "(string option \<times> string) list \<Rightarrow> (string \<rightharpoonup> string)" where
  "dict_of_pairs kcs =
     foldl (\<lambda>m (k, c). case k of None \<Rightarrow> m | Some k' \<Rightarrow> if k' = [] then m else m(k' \<mapsto> c))
       Map.empty kcs"

definition Location_Codes_Finder :: "row list \<Rightarrow> cell list \<Rightarrow> finder" where
  "Location_Codes_Finder table codes =
     (let cl = unique (map (\<lambda>c. upper (strip (py_str c))) (filter (\<lambda>c. \<not> isna c) codes));
          raw_set = set cl;
          fmt4_set = set (List.map_filter
                      (\<lambda>c. case format_code_4 (PyStr c) of
                             None \<Rightarrow> None
                           | Some f \<Rightarrow> if f = [] then None else Some f) cl)
      in \<lparr> master_table = table, codes_list = cl, codes_set_raw = raw_set,
           codes_set_4 = fmt4_set,
           address_to_code = dict_of_pairs (zip (map master_key table) (map master_code table)) \<rparr>)"

definition validate_code_in_list :: "finder \<Rightarrow> cell \<Rightarrow> string option" where
  "validate_code_in_list self code =
     (case format_code_4 code of
        None \<Rightarrow> None
      | Some formatted \<Rightarrow>
          if formatted = [] then None
          else if formatted \<in> codes_set_4 self then Some formatted
          else let raw = upper (strip (py_str code)) in
            if raw \<in> codes_set_raw self then format_code_4 (PyStr raw) else None)"

definition extract_from_org_dest_type :: "finder \<Rightarrow> cell \<Rightarrow> cell \<Rightarrow> string option \<times> string option" where
  "extract_from_org_dest_type self org_type_code dest_type_code =
     (validate_code_in_list self org_type_code, validate_code_in_list self dest_type_code)"

definition extract_from_address :: "finder \<Rightarrow> cell \<Rightarrow> string option" where
  "extract_from_address self combined_address =
     (if isna combined_address then None
      else let k = strip (upper (remove_spaces (py_str combined_address))) in
        if k = [] then None
        else (case address_to_code self k of
                None \<Rightarrow> None
              | Some raw_code \<Rightarrow> format_code_4 (PyStr raw_code)))"

section \<open>The specification's wording of the normalizer\<close>





section \<open>The responsible party (matrix_mapping.py)\<close>

datatype failure = KeyError | IndexError | AttributeError

text \<open>\<^verbatim>\<open>r[k]\<close>, which raises \<^verbatim>\<open>KeyError\<close> when the row has no column \<open>k\<close>.\<close>

definition row_item :: "row \<Rightarrow> string \<Rightarrow> failure + cell" where
  "row_item r k = (case map_of r k of None \<Rightarrow> Inl KeyError | Some v \<Rightarrow> Inr v)"

text \<open>\<^verbatim>\<open>p in s\<close> and \<^verbatim>\<open>s.startswith(p)\<close> on strings.\<close>

definition startswith :: "string \<Rightarrow> string \<Rightarrow> bool" where
  "startswith s p = (take (length p) s = p)"

primrec is_substring :: "string \<Rightarrow> string \<Rightarrow> bool" where
  "is_substring p [] = (p = [])"
| "is_substring p (c # cs) = (startswith (c # cs) p \<or> is_substring p cs)"

definition SPECIAL_CODES :: "string set" where
  "SPECIAL_CODES = {''0K35'', ''024P'', ''067N''}"

fun first_nonblank :: "cell list \<Rightarrow> string" where
  "first_nonblank [] = []"
| "first_nonblank (v # vals) =
     (if v = PyNone then first_nonblank vals
      else let s = strip (py_str v) in
        if s \<noteq> [] \<and> upper s \<notin> {''NAN'', ''NONE''} then s else first_nonblank vals)"

text \<open>
  The tables \<^verbatim>\<open>SPECIAL_TYPE_MAPPINGS\<close> and \<^verbatim>\<open>Coding_Matrix\<close> come from the module
  \<^verbatim>\<open>coding_matrix\<close>; they are parameters here, keyed by a pair of type codes. A pair
  with a component that is not a string is in neither table.
\<close>

type_synonym type_table = "(string \<times> string) \<rightharpoonup> string"

definition table_get :: "type_table \<Rightarrow> cell \<times> cell \<Rightarrow> string option" where
  "table_get t k = (case k of (PyStr a, PyStr b) \<Rightarrow> t (a, b) | _ \<Rightarrow> None)"

definition determine_profit_center :: "type_table \<Rightarrow> type_table \<Rightarrow> row \<Rightarrow> failure + cell" where
  "determine_profit_center SPECIAL_TYPE_MAPPINGS Coding_Matrix r =
     (let consignor_type = upper (strip (py_str (row_get r ''Final Consignor Type'' (PyStr []))));
          consignee_type_norm =
            remove_spaces (upper (strip (py_str (row_get r ''Final Consignee Type'' (PyStr [])))))
      in
      if consignor_type = ''MM'' \<and> consignee_type_norm = ''CADC'' then Inr (PyStr ''037Q'')
      else case row_item r ''Final Consignee Code'' of
        Inl e \<Rightarrow> Inl e
      | Inr consignee_code \<Rightarrow>
        if (case consignee_code of PyStr c \<Rightarrow> c \<in> SPECIAL_CODES | _ \<Rightarrow> False)
           \<and> consignee_type_norm \<in> {''USDC'', ''CADC''} \<and> consignor_type \<noteq> ''LC''
        then Inr consignee_code
        else let candidate =
               (case row_get r ''Carrier Name'' PyNone of
                  PyStr carrier \<Rightarrow>
                    if is_substring ''omnitrans'' (lower carrier)
                    then first_nonblank
                           [row_get r ''Extracted Consignee Code'' PyNone,
                            row_get r ''Addr_Lookup_Consignee_Code'' PyNone,
                            row_get r ''Dest Type Consignee Code'' PyNone,
                            row_get r ''Final Consignor Code'' PyNone]
                    else []
                | _ \<Rightarrow> [])
          in
          if candidate \<noteq> [] then Inr (PyStr candidate)
          else case row_item r ''Final Consignor Type'' of
            Inl e \<Rightarrow> Inl e
          | Inr t1 \<Rightarrow>
            (case row_item r ''Final Consignee Type'' of
               Inl e \<Rightarrow> Inl e
             | Inr t2 \<Rightarrow>
               (case table_get SPECIAL_TYPE_MAPPINGS (t1, t2) of
                  Some code \<Rightarrow> Inr (PyStr code)
                | None \<Rightarrow>
                  (case table_get Coding_Matrix (t1, t2) of
                     Some direction \<Rightarrow>
                       if direction = ''ORIGIN'' then row_item r ''Final Consignor Code''
                       else if direction = ''DESTINATION'' then Inr consignee_code
                       else Inr (PyStr ''UNKNOWN'')
                   | None \<Rightarrow> Inr (PyStr ''UNKNOWN'')))))"

text \<open>Removal of every white space character, which is how the specification words the
  comparison of the consignee type.\<close>

definition remove_whitespace :: "string \<Rightarrow> string" where
  "remove_whitespace s = filter (\<lambda>c. \<not> isspace c) s"

section \<open>Assignments to a row\<close>

text \<open>\<^verbatim>\<open>df[k] = v\<close> for one row: the cell of column \<open>k\<close> is replaced, and a table
  without that column gets it as its last column.\<close>

primrec row_set :: "row \<Rightarrow> string \<Rightarrow> cell \<Rightarrow> row" where
  "row_set [] k v = [(k, v)]"
| "row_set (p # ps) k v = (if fst p = k then (k, v) # ps else p # row_set ps k v)"

section \<open>The GL account (main_logic.py)\<close>

text \<open>\<^verbatim>\<open>a == b\<close> on cells: a NaN is equal to nothing.\<close>

definition py_eq :: "cell \<Rightarrow> cell \<Rightarrow> bool" where
  "py_eq a b = (a = b \<and> a \<noteq> PyNaN)"

definition account_number :: "row \<Rightarrow> int" where
  "account_number r =
     (if is_substring ''G59'' (py_str (row_get r ''Profit Center EJ'' (PyStr []))) then 621000
      else if py_eq (row_get r ''Final Consignee Code'' PyNone) (row_get r ''Responsible Party'' PyNone)
        then 621000
      else 621020)"

text \<open>One element of \<^verbatim>\<open>_force_excel_text\<close>: both branches of its inner function
  return the trimmed text.\<close>

definition force_excel_text :: "cell \<Rightarrow> string" where
  "force_excel_text v = (let s = strip (py_str (fillna (PyStr []) v)) in if s = [] then [] else s)"

definition gl_account_step :: "row \<Rightarrow> row" where
  "gl_account_step r =
     row_set r ''Account # EJ''
       (PyStr (force_excel_text (PyStr (py_str (PyInt (account_number r))))))"

section \<open>Column standardization (main_logic.py)\<close>

text \<open>\<^verbatim>\<open>_norm_col\<close>: the lowercased label without the characters outside
  \<^verbatim>\<open>a-z0-9\<close>.\<close>

definition norm_col :: "string \<Rightarrow> string" where
  "norm_col s = filter (\<lambda>c. islower_char c \<or> isdigit_char c) (lower s)"

definition labels :: "row \<Rightarrow> string list" where
  "labels df = map fst df"

text \<open>\<^verbatim>\<open>_pick_col\<close>: the dictionary \<^verbatim>\<open>norm_map\<close> keeps, for every normalized
  label, the last column that has it, so it is read here from the last column backwards;
  the first candidate that is a key of \<^verbatim>\<open>norm_map\<close> decides.\<close>

definition norm_map :: "string list \<Rightarrow> (string \<times> string) list" where
  "norm_map cols = map (\<lambda>c. (norm_col c, c)) (rev cols)"

fun pick_from :: "(string \<times> string) list \<Rightarrow> string list \<Rightarrow> string option" where
  "pick_from nm [] = None"
| "pick_from nm (cand # rest) =
     (case map_of nm (norm_col cand) of
        Some c \<Rightarrow> Some c
      | None \<Rightarrow> pick_from nm rest)"

definition pick_col :: "string list \<Rightarrow> string list \<Rightarrow> string option" where
  "pick_col cols candidates = pick_from (norm_map cols) candidates"

definition FIELD_ALIASES :: "(string \<times> string list) list" where
  "FIELD_ALIASES =
     [(''Consignor'',
        [''Consignor'', ''Origin Facility'', ''Shipper'', ''Ship From Name'', ''Origin Name'',
         ''Org Name'', ''Origin Company'', ''Org Company'', ''ShipFromName'', ''OrgName'']),
      (''Consignee'',
        [''Consignee'', ''Destination Facility'', ''Receiver'', ''Ship To Name'',
         ''Destination Name'', ''Dest Name'', ''Dest Company'', ''Destination Company'',
         ''ShipToName'', ''DestName'']),
      (''Origin Address'',
        [''Origin Address'', ''Origin Address1'', ''Origin Addresss'', ''Org Address'',
         ''Org Address1'', ''Ship From Address'', ''Ship From Address1'', ''Shipper Address'',
         ''Shipper Address1'']),
      (''Origin City'', [''Origin City'', ''Org City'', ''Ship From City'', ''Shipper City'']),
      (''Origin State'',
        [''Origin State'', ''Origin State Code'', ''Org State'', ''Org State Code'',
         ''Ship From State'', ''Ship From State Code'']),
      (''Destination Address'',
        [''Destination Address'', ''Destination Address1'', ''Dest Address'', ''Dest Address1'',
         ''Ship To Address'', ''Ship To Address1'', ''Receiver Address'', ''Receiver Address1'']),
      (''Destination City'',
        [''Destination City'', ''Dest City'', ''Ship To City'', ''Receiver City'']),
      (''Destination State'',
        [''Destination State'', ''Destination State Code'', ''Dest State'', ''Dest State Code'',
         ''Ship To State'', ''Ship To State Code''])]"

text \<open>\<^verbatim>\<open>df[k]\<close> for a column that the pipeline has created before it reads it.\<close>

definition col :: "row \<Rightarrow> string \<Rightarrow> cell" where
  "col df k = row_get df k PyNaN"

text \<open>\<^verbatim>\<open>s.fillna("").astype(str)\<close> on one cell.\<close>

definition as_text :: "cell \<Rightarrow> string" where
  "as_text v = py_str (fillna (PyStr []) v)"

definition set_canonical :: "row \<Rightarrow> string \<times> string list \<Rightarrow> row" where
  "set_canonical df ca =
     row_set df (fst ca)
       (case pick_col (labels df) (snd ca) of Some found \<Rightarrow> col df found | None \<Rightarrow> PyStr [])"

definition text_canonical :: "row \<Rightarrow> string \<Rightarrow> row" where
  "text_canonical df c = row_set df c (PyStr (as_text (col df c)))"

definition standardize_input_columns :: "row \<Rightarrow> row" where
  "standardize_input_columns df =
     foldl text_canonical (foldl set_canonical df FIELD_ALIASES) (map fst FIELD_ALIASES)"

section \<open>Extraction from text (location_codes_finder.py)\<close>

text \<open>\<^verbatim>\<open>re.findall(r"[A-Z0-9]+", text)\<close>: the maximal runs of capitals and digits. The
  second argument is the run read so far.\<close>

primrec runs_from :: "string \<Rightarrow> string \<Rightarrow> string list" where
  "runs_from [] cur = (if cur = [] then [] else [cur])"
| "runs_from (c # cs) cur =
     (if isupper_char c \<or> isdigit_char c then runs_from cs (cur @ [c])
      else if cur = [] then runs_from cs [] else cur # runs_from cs [])"

text \<open>
  \<^verbatim>\<open>re.findall(r"\d{1,4}[A-Z]{0,2}|\d{1,4}", text)\<close>: from left to right, a match starts
  at a digit, takes up to four digits and then up to two capitals, and the search goes on
  after it. The second argument is the match read so far, digits first.
\<close>

primrec code_scan :: "string \<Rightarrow> string \<Rightarrow> string list" where
  "code_scan [] cur = (if cur = [] then [] else [cur])"
| "code_scan (c # cs) cur =
     (let nd = length (takeWhile isdigit_char cur); nl = length cur - nd in
      if cur = [] then (if isdigit_char c then code_scan cs [c] else code_scan cs [])
      else if nl = 0 \<and> nd < 4 \<and> isdigit_char c then code_scan cs (cur @ [c])
      else if nl < 2 \<and> isupper_char c then code_scan cs (cur @ [c])
      else cur # (if isdigit_char c then code_scan cs [c] else code_scan cs []))"

fun first_valid :: "finder \<Rightarrow> string list \<Rightarrow> string option" where
  "first_valid self [] = None"
| "first_valid self (tok # toks) =
     (case validate_code_in_list self (PyStr tok) of
        Some v \<Rightarrow> if v \<noteq> [] then Some v else first_valid self toks
      | None \<Rightarrow> first_valid self toks)"

text \<open>
  The order in which Python iterates over \<^verbatim>\<open>set(tokens)\<close> is not fixed by the
  language; it is the parameter \<open>set_order\<close>. \<^verbatim>\<open>sorted\<close> is stable, also with
  \<^verbatim>\<open>reverse=True\<close>.
\<close>

definition extract_from_text :: "(string list \<Rightarrow> string list) \<Rightarrow> finder \<Rightarrow> cell \<Rightarrow> string option" where
  "extract_from_text set_order self consignor_consignee =
     (if isna consignor_consignee then None
      else let text = upper (py_str consignor_consignee);
               tokens = runs_from text [] @ code_scan text [];
               tokens' = sort_key (\<lambda>t. - int (length t)) (set_order tokens)
           in first_valid self tokens')"

section \<open>The pipeline up to the responsible party (main_logic.py)\<close>

record pipeline_context =
  location_finder :: finder
  master_combined_set :: "string set"
  master_code_to_type :: "string \<rightharpoonup> cell"
  special_type_mappings :: type_table
  coding_matrix :: type_table
  set_order :: "string list \<Rightarrow> string list"

definition opt_cell :: "string option \<Rightarrow> cell" where
  "opt_cell r = (case r of None \<Rightarrow> PyNone | Some s \<Rightarrow> PyStr s)"

definition combined_addresses :: "row \<Rightarrow> row" where
  "combined_addresses df =
     (let df1 = row_set df ''Consignor_Combined_Address''
                  (opt_cell (combine_addr (col df ''Origin Address'') (col df ''Origin City'')
                     (col df ''Origin State'')))
      in row_set df1 ''Consignee_Combined_Address''
           (opt_cell (combine_addr (col df1 ''Destination Address'') (col df1 ''Destination City'')
              (col df1 ''Destination State''))))"

definition extracted_codes :: "pipeline_context \<Rightarrow> row \<Rightarrow> row" where
  "extracted_codes ctx df =
     (let df1 = row_set df ''Extracted Consignor Code''
                  (normalize_loc_code_series
                     (opt_cell (extract_from_text (set_order ctx) (location_finder ctx)
                        (col df ''Consignor''))))
      in row_set df1 ''Extracted Consignee Code''
           (normalize_loc_code_series
              (opt_cell (extract_from_text (set_order ctx) (location_finder ctx)
                 (col df1 ''Consignee'')))))"

text \<open>\<^verbatim>\<open>re.search(r"\b(CINTAS|MAT)\b", s)\<close>, for a list of words made of word
  characters: a word matches where it stands between two word boundaries. The second
  argument is the character before the position read.\<close>

definition isword_char :: "char \<Rightarrow> bool" where
  "isword_char c = (isupper_char c \<or> islower_char c \<or> isdigit_char c \<or> c = CHR ''_'')"

definition boundary_before :: "char option \<Rightarrow> bool" where
  "boundary_before prev = (case prev of None \<Rightarrow> True | Some p \<Rightarrow> \<not> isword_char p)"

definition word_here :: "string \<Rightarrow> string \<Rightarrow> bool" where
  "word_here s w =
     (startswith s w \<and> (case drop (length w) s of [] \<Rightarrow> True | d # _ \<Rightarrow> \<not> isword_char d))"

primrec search_words :: "string list \<Rightarrow> char option \<Rightarrow> string \<Rightarrow> bool" where
  "search_words ws prev [] = False"
| "search_words ws prev (c # cs) =
     ((boundary_before prev \<and> list_ex (word_here (c # cs)) ws) \<or> search_words ws (Some c) cs)"

definition contains_cintas_or_mat :: "string \<Rightarrow> bool" where
  "contains_cintas_or_mat s = search_words [''CINTAS'', ''MAT''] None s"

definition has_code :: "cell \<Rightarrow> bool" where
  "has_code v = (\<not> isna v \<and> strip (py_str v) \<noteq> [])"

definition wipe_mask :: "string set \<Rightarrow> string \<Rightarrow> string \<Rightarrow> string \<Rightarrow> row \<Rightarrow> bool" where
  "wipe_mask master_set code_col party_col addr_col df =
     (let party_has_code = has_code (col df code_col);
          no_cintas_or_mat = (\<not> contains_cintas_or_mat (upper (as_text (col df party_col))));
          addr_ok = (as_text (col df addr_col) \<in> master_set)
      in party_has_code \<and> no_cintas_or_mat \<and> \<not> addr_ok)"

definition address_checker :: "string set \<Rightarrow> row \<Rightarrow> row" where
  "address_checker master_set df =
     (let wipe_consignor = wipe_mask master_set ''Extracted Consignor Code'' ''Consignor''
                             ''Consignor_Combined_Address'' df;
          wipe_consignee = wipe_mask master_set ''Extracted Consignee Code'' ''Consignee''
                             ''Consignee_Combined_Address'' df;
          df1 = (if wipe_consignor then row_set df ''Extracted Consignor Code'' (PyStr []) else df)
      in if wipe_consignee then row_set df1 ''Extracted Consignee Code'' (PyStr []) else df1)"

definition org_dest_type_codes :: "finder \<Rightarrow> row \<Rightarrow> row" where
  "org_dest_type_codes self df =
     (let org_type_col = pick_col (labels df)
            [''Org Type Code'', ''Org Loc Code'', ''Origin Type Code'', ''OrgTypeCode''];
          dest_type_col = pick_col (labels df)
            [''Dest Type Code'', ''Dest Loc Code'', ''Destination Type Code'', ''DestTypeCode''];
          tmp = (case (org_type_col, dest_type_col) of
                   (Some oc, Some dc) \<Rightarrow>
                     (case extract_from_org_dest_type self (row_get df oc (PyStr []))
                             (row_get df dc (PyStr [])) of
                        (org, dest) \<Rightarrow> (opt_cell org, opt_cell dest))
                 | _ \<Rightarrow> (PyStr [], PyStr []));
          df1 = row_set (row_set df ''Org Type Consignor Code'' (fst tmp))
                  ''Dest Type Consignee Code'' (snd tmp);
          df2 = row_set df1 ''Org Type Consignor Code''
                  (normalize_loc_code_series (col df1 ''Org Type Consignor Code''))
      in row_set df2 ''Dest Type Consignee Code''
           (normalize_loc_code_series (col df2 ''Dest Type Consignee Code'')))"

definition address_lookup_codes :: "finder \<Rightarrow> row \<Rightarrow> row" where
  "address_lookup_codes self df =
     (let df1 = row_set df ''Addr_Lookup_Consignor_Code''
                  (normalize_loc_code_series
                     (opt_cell (extract_from_address self (col df ''Consignor_Combined_Address''))))
      in row_set df1 ''Addr_Lookup_Consignee_Code''
           (normalize_loc_code_series
              (opt_cell (extract_from_address self (col df1 ''Consignee_Combined_Address'')))))"

definition suite_mississauga :: "row \<Rightarrow> row" where
  "suite_mississauga df =
     (let consignee_combo = upper (as_text (col df ''Consignee_Combined_Address''));
          consignor_txt = strip (upper (as_text (col df ''Consignor'')));
          is_suite_mississauga = startswith consignee_combo ''SUITEMISSISSAUGAON'';
          consignor_097H = list_ex (startswith consignor_txt)
                             [''LNK'', ''AMERICAN METAL CRAFTERS'', ''RADIANS'', ''EVER READY''];
          consignor_067N = list_ex (startswith consignor_txt) [''VECTAIR'', ''ZEP''];
          consignor_0897 = list_ex (startswith consignor_txt) [''CHEMFREE'', ''BERRY GLOBAL''];
          df1 = (if is_suite_mississauga \<and> consignor_097H
                 then row_set df ''Addr_Lookup_Consignee_Code'' (PyStr ''097H'') else df);
          df2 = (if is_suite_mississauga \<and> consignor_067N
                 then row_set df1 ''Addr_Lookup_Consignee_Code'' (PyStr ''067N'') else df1)
      in if is_suite_mississauga \<and> consignor_0897
         then row_set df2 ''Addr_Lookup_Consignee_Code'' (PyStr ''0897'') else df2)"

text \<open>\<^verbatim>\<open>clean_blank\<close>: a string of white space only, the empty string included, becomes
  a missing value.\<close>

definition clean_blank :: "cell \<Rightarrow> cell" where
  "clean_blank v = (case v of PyStr s \<Rightarrow> if list_all isspace s then PyNaN else v | _ \<Rightarrow> v)"

definition final_code :: "cell \<Rightarrow> cell \<Rightarrow> cell \<Rightarrow> cell" where
  "final_code extracted type_field addr_lookup =
     fillna (PyStr ''NON-CINTAS'')
       (fillna (clean_blank addr_lookup)
          (fillna (clean_blank type_field) (clean_blank extracted)))"

definition final_codes :: "row \<Rightarrow> row" where
  "final_codes df =
     (let df1 = row_set df ''Final Consignor Code''
                  (final_code (col df ''Extracted Consignor Code'')
                     (col df ''Org Type Consignor Code'') (col df ''Addr_Lookup_Consignor_Code''))
      in row_set df1 ''Final Consignee Code''
           (final_code (col df1 ''Extracted Consignee Code'')
              (col df1 ''Dest Type Consignee Code'') (col df1 ''Addr_Lookup_Consignee_Code'')))"

definition normalize_finals :: "row \<Rightarrow> row" where
  "normalize_finals df =
     (let df1 = row_set df ''Final Consignor Code''
                  (normalize_loc_code_series (col df ''Final Consignor Code''))
      in row_set df1 ''Final Consignee Code''
           (normalize_loc_code_series (col df1 ''Final Consignee Code'')))"

text \<open>The exception rules: match column, text to find, column to set, code to store.\<close>

definition EXCEPTION_RULES :: "(string \<times> string \<times> string \<times> string) list" where
  "EXCEPTION_RULES =
     [(''Destination Address'', ''6001 W'', ''Final Consignee Code'', ''0021''),
      (''Consignee'', ''VALDEZ'', ''Final Consignee Code'', ''0K35''),
      (''Destination Address'', ''ATTN: GARDNER'', ''Final Consignee Code'', ''0536''),
      (''Consignor'', ''AVERITT TERMINAL'', ''Final Consignor Code'', ''0004''),
      (''Consignor'', ''COOPETRAJES'', ''Final Consignor Code'', ''0896''),
      (''Consignee'', ''COOPETRAJES'', ''Final Consignee Code'', ''0896''),
      (''Consignor'', ''MATHESON'', ''Final Consignor Code'', ''067N''),
      (''Consignor'', ''EMPRESSA'', ''Final Consignor Code'', ''0972''),
      (''Consignor'', ''EMPRESA'', ''Final Consignor Code'', ''0972''),
      (''Consignee'', ''EMPRESSA'', ''Final Consignee Code'', ''0972''),
      (''Consignee'', ''EMPRESA'', ''Final Consignee Code'', ''0972'')]"

definition apply_exception :: "row \<Rightarrow> string \<times> string \<times> string \<times> string \<Rightarrow> row" where
  "apply_exception df rule =
     (case rule of (match_column, pat, set_column, code) \<Rightarrow>
        if match_column \<notin> set (labels df) then df
        else if is_substring pat (upper (as_text (col df match_column)))
          then row_set df set_column (PyStr code)
        else df)"

definition exceptions :: "row \<Rightarrow> row" where
  "exceptions df = foldl apply_exception df EXCEPTION_RULES"

definition final_type :: "(string \<rightharpoonup> cell) \<Rightarrow> cell \<Rightarrow> cell" where
  "final_type code_to_type code =
     fillna (PyStr ''NON-CINTAS'')
       (case code_to_type (upper (py_str code)) of None \<Rightarrow> PyNaN | Some t \<Rightarrow> t)"

definition final_types :: "(string \<rightharpoonup> cell) \<Rightarrow> row \<Rightarrow> row" where
  "final_types code_to_type df =
     (let df1 = row_set df ''Final Consignor Type''
                  (final_type code_to_type (col df ''Final Consignor Code''))
      in row_set df1 ''Final Consignee Type''
           (final_type code_to_type (col df1 ''Final Consignee Code'')))"

definition responsible_party :: "pipeline_context \<Rightarrow> row \<Rightarrow> failure + row" where
  "responsible_party ctx df =
     (case determine_profit_center (special_type_mappings ctx) (coding_matrix ctx) df of
        Inl e \<Rightarrow> Inl e
      | Inr v \<Rightarrow> Inr (row_set df ''Responsible Party'' v))"

definition resolve_codes :: "pipeline_context \<Rightarrow> row \<Rightarrow> row" where
  "resolve_codes ctx df =
     final_types (master_code_to_type ctx)
       (normalize_finals (exceptions (normalize_finals (final_codes (suite_mississauga
          (address_lookup_codes (location_finder ctx)
             (org_dest_type_codes (location_finder ctx)
                (address_checker (master_combined_set ctx)
                   (extracted_codes ctx
                      (combined_addresses (standardize_input_columns df)))))))))))"

definition resolve_row :: "pipeline_context \<Rightarrow> row \<Rightarrow> failure + row" where
  "resolve_row ctx df = responsible_party ctx (resolve_codes ctx df)"

section \<open>The specification's wording of the final code resolver\<close>

text \<open>A word stands in a text as a whole word when the character before it and the
  character after it, where there is one, are not word characters.\<close>

definition whole_word_in :: "string \<Rightarrow> string \<Rightarrow> bool" where
  "whole_word_in w s =
     (\<exists>pre post. s = pre @ w @ post \<and> (pre = [] \<or> \<not> isword_char (last pre))
        \<and> (post = [] \<or> \<not> isword_char (hd post)))"

text \<open>A candidate is present when it is neither missing nor a blank string; the first
  present candidate of a list, and the sentinel when there is none.\<close>

definition present :: "cell \<Rightarrow> bool" where
  "present v = (\<not> isna v \<and> (case v of PyStr s \<Rightarrow> \<not> list_all isspace s | _ \<Rightarrow> True))"


section \<open>Profit center, cost center and the rest of the pipeline (main_logic.py)\<close>

text \<open>
  A reference table: its column labels and its rows. What the source does not fix is a
  parameter of the pipeline: the two tables of the module \<^verbatim>\<open>coding_matrix\<close>, the
  order in which Python iterates over a set of tokens, and the text that
  \<^verbatim>\<open>f"{float(v):.5f}"\<close> gives for a numeric text (floating point).
\<close>

record table =
  table_columns :: "string list"
  table_rows :: "row list"

record environment =
  env_special_type_mappings :: type_table
  env_coding_matrix :: type_table
  env_set_order :: "string list \<Rightarrow> string list"
  env_fixed5 :: "string \<Rightarrow> string"

text \<open>\<^verbatim>\<open>t[k] = _normalize_loc_code_series(t[k])\<close> when the table has the column.\<close>

definition normalize_column :: "string \<Rightarrow> table \<Rightarrow> table" where
  "normalize_column k t =
     (if k \<in> set (table_columns t)
      then t\<lparr>table_rows := map (\<lambda>r. row_set r k (normalize_loc_code_series (col r k))) (table_rows t)\<rparr>
      else t)"

text \<open>\<^verbatim>\<open>dict(zip(keys, values))\<close>: a later pair replaces an earlier one with the same
  key.\<close>

definition dict_of :: "('k \<times> 'v) list \<Rightarrow> ('k \<rightharpoonup> 'v)" where
  "dict_of kvs = foldl (\<lambda>m kv. m(fst kv \<mapsto> snd kv)) Map.empty kvs"

definition type_of_master_row :: "row \<Rightarrow> string \<times> cell" where
  "type_of_master_row r =
     (upper (py_str (col r ''Loc Code'')),
      (let t = upper (py_str (col r ''Type Code'')) in if t = ''NAN'' then PyNaN else PyStr t))"

text \<open>\<^verbatim>\<open>re.fullmatch(r"-?\d+(\.\d+)?", v)\<close>.\<close>

definition numeric_text :: "string \<Rightarrow> bool" where
  "numeric_text v =
     (let u = (case v of [] \<Rightarrow> [] | c # r \<Rightarrow> if c = CHR ''-'' then r else v);
          int_part = takeWhile isdigit_char u;
          rest = dropWhile isdigit_char u
      in int_part \<noteq> [] \<and>
         (case rest of [] \<Rightarrow> True | d # frac \<Rightarrow> d = CHR ''.'' \<and> isdigit frac))"

definition as_text_keep_zeros :: "(string \<Rightarrow> string) \<Rightarrow> cell \<Rightarrow> string" where
  "as_text_keep_zeros fixed5 c =
     (let v = strip (as_text c) in
      if v = [] then [] else if \<not> numeric_text v then v else fixed5 v)"

definition merge_row_of :: "(string \<Rightarrow> string) \<Rightarrow> string list \<Rightarrow> row \<Rightarrow> row" where
  "merge_row_of fixed5 cols r =
     (let r1 = (if ''ProfitCtr'' \<in> set cols
                then row_set r ''ProfitCtr'' (PyStr (strip (as_text (col r ''ProfitCtr'')))) else r);
          r2 = (if ''Cost Center'' \<in> set cols
                then row_set r1 ''Cost Center''
                       (PyStr (force_excel_text
                          (PyStr (as_text_keep_zeros fixed5 (col r1 ''Cost Center'')))))
                else r1)
      in map (\<lambda>k. (k, col r2 k)) [''Loc Code'', ''ProfitCtr'', ''Cost Center''])"

record prepared =
  resolution :: pipeline_context
  merge_rows :: "row list"
  fixed5 :: "string \<Rightarrow> string"

text \<open>The part of \<^verbatim>\<open>run_pipeline\<close> that reads the reference tables. A table without
  a column that is read by name raises \<^verbatim>\<open>KeyError\<close>; a code list without columns raises
  \<^verbatim>\<open>IndexError\<close>.\<close>

definition prepare ::
  "environment \<Rightarrow> table \<Rightarrow> table \<Rightarrow> table \<Rightarrow> failure + prepared" where
  "prepare env cintas_master_data cintas_master_data_2 cintas_location_codes =
     (let my_loc = normalize_column ''Loc Code'' cintas_master_data;
          master_loc = normalize_column ''Loc Code'' cintas_master_data_2;
          all_codes = cintas_location_codes
      in if ''Codes'' \<notin> set (table_columns all_codes) \<and> table_columns all_codes = []
         then Inl IndexError
         else
           let codes_col = (if ''Codes'' \<in> set (table_columns all_codes) then ''Codes''
                            else hd (table_columns all_codes));
               codes = map (\<lambda>r. normalize_loc_code_series (col r codes_col)) (table_rows all_codes);
               self = Location_Codes_Finder (table_rows my_loc) codes;
               master_set = set (List.map_filter master_key (table_rows my_loc))
           in if \<not> list_all (\<lambda>k. k \<in> set (table_columns master_loc))
                     [''Loc Code'', ''Type Code'', ''ProfitCtr'', ''Cost Center'']
              then Inl KeyError
              else Inr \<lparr> resolution =
                          \<lparr> location_finder = self, master_combined_set = master_set,
                            master_code_to_type =
                              dict_of (map type_of_master_row (table_rows master_loc)),
                            special_type_mappings = env_special_type_mappings env,
                            coding_matrix = env_coding_matrix env,
                            set_order = env_set_order env \<rparr>,
                        merge_rows = map (merge_row_of (env_fixed5 env) (table_columns master_loc))
                                       (table_rows master_loc),
                        fixed5 = env_fixed5 env \<rparr>)"

text \<open>
  \<^verbatim>\<open>accrual_sheet.merge(ml_merge[...], left_on="Responsible Party", right_on="Loc Code",
  how="left", suffixes=("", "_master"))\<close> for one row of the sheet: a column of the
  master table whose label the sheet has too gets the suffix; the row is joined with
  every master row of its responsible party, and with missing values when there is none.
\<close>

definition merge_master :: "row list \<Rightarrow> row \<Rightarrow> row list" where
  "merge_master right df =
     (let k = col df ''Responsible Party'';
          suffixed = (\<lambda>l. if l \<in> set (labels df) then l @ ''_master'' else l);
          matches = filter (\<lambda>mr. col mr ''Loc Code'' = k) right
      in if matches = []
         then [df @ map (\<lambda>l. (suffixed l, PyNaN)) [''Loc Code'', ''ProfitCtr'', ''Cost Center'']]
         else map (\<lambda>mr. df @ map (\<lambda>l. (suffixed l, col mr l))
                               [''Loc Code'', ''ProfitCtr'', ''Cost Center'']) matches)"

text \<open>\<^verbatim>\<open>df.rename(columns={old: new})\<close>: every column labelled \<open>old\<close> is relabelled.\<close>

definition rename_label :: "string \<Rightarrow> string \<Rightarrow> row \<Rightarrow> row" where
  "rename_label old new df = map (\<lambda>p. (if fst p = old then new else fst p, snd p)) df"

definition rename_master_columns :: "row \<Rightarrow> row" where
  "rename_master_columns df =
     (let df1 = (if ''ProfitCtr'' \<in> set (labels df)
                 then rename_label ''ProfitCtr'' ''Profit Center EJ'' df else df)
      in if ''Cost Center_master'' \<in> set (labels df1)
         then rename_label ''Cost Center_master'' ''Cost Center EJ'' df1
         else if ''Cost Center'' \<in> set (labels df1) \<and> ''Cost Center EJ'' \<notin> set (labels df1)
         then rename_label ''Cost Center'' ''Cost Center EJ'' df1
         else df1)"

text \<open>
  \<^verbatim>\<open>df.get(k, pd.Series([""] * len(df)))\<close> followed by \<^verbatim>\<open>.fillna("").astype(str).str\<close>:
  with two columns labelled \<open>k\<close> the table gives a \<^verbatim>\<open>DataFrame\<close>, which has no
  attribute \<^verbatim>\<open>str\<close>.
\<close>

definition column_text :: "row \<Rightarrow> string \<Rightarrow> failure + string" where
  "column_text df k =
     (case filter (\<lambda>p. fst p = k) df of
        [] \<Rightarrow> Inr []
      | [p] \<Rightarrow> Inr (as_text (snd p))
      | _ \<Rightarrow> Inl AttributeError)"

definition blank_third_party :: "row \<Rightarrow> row" where
  "blank_third_party df =
     (let rp_norm = strip (upper (as_text (col df ''Responsible Party'')));
          mask_blank = (rp_norm \<in> {''THIRD PARTY'', ''NON-CINTAS''});
          df1 = (if mask_blank then row_set df ''Profit Center EJ'' (PyStr []) else df)
      in if mask_blank then row_set df1 ''Cost Center EJ'' (PyStr []) else df1)"

definition automation_accuracy :: "row \<Rightarrow> row" where
  "automation_accuracy df =
     row_set df ''Automation Accuracy''
       (if ''Profit Center'' \<in> set (labels df) \<and> ''Profit Center EJ'' \<in> set (labels df)
        then (if py_eq (col df ''Profit Center'') (col df ''Profit Center EJ'')
                 \<and> \<not> isna (col df ''Profit Center'') \<and> \<not> isna (col df ''Profit Center EJ'')
              then PyInt 1 else PyInt 0)
        else PyInt 0)"

definition column_order :: "row \<Rightarrow> row" where
  "column_order df =
     (let first_cols = filter (\<lambda>c. c \<in> set (labels df))
            [''Profit Center'', ''Cost Center'', ''Account #'', ''Automation Accuracy'',
             ''Profit Center EJ'', ''Cost Center EJ'', ''Account # EJ''];
          other_cols = filter (\<lambda>c. c \<notin> set first_cols) (labels df)
      in map (\<lambda>c. (c, col df c)) (first_cols @ other_cols))"

definition populate :: "(string \<Rightarrow> string) \<Rightarrow> row \<Rightarrow> failure + row" where
  "populate fixed5_text df0 =
     (let df = rename_master_columns df0 in
      case column_text df ''Profit Center EJ'' of
        Inl e \<Rightarrow> Inl e
      | Inr pc \<Rightarrow>
        let df1 = row_set df ''Profit Center EJ'' (PyStr (strip pc)) in
        (case column_text df1 ''Cost Center EJ'' of
           Inl e \<Rightarrow> Inl e
         | Inr cc \<Rightarrow>
           let df2 = row_set df1 ''Cost Center EJ'' (PyStr (as_text_keep_zeros fixed5_text (PyStr cc)));
               df3 = row_set df2 ''Cost Center EJ'' (PyStr (force_excel_text (col df2 ''Cost Center EJ'')))
           in Inr (column_order (automation_accuracy (gl_account_step (blank_third_party df3))))))"

text \<open>All of a list of results, or the first failure.\<close>

fun all_or_failure :: "(failure + 'a) list \<Rightarrow> failure + 'a list" where
  "all_or_failure [] = Inr []"
| "all_or_failure (x # xs) =
     (case x of
        Inl e \<Rightarrow> Inl e
      | Inr v \<Rightarrow> (case all_or_failure xs of Inl e \<Rightarrow> Inl e | Inr vs \<Rightarrow> Inr (v # vs)))"

definition run_pipeline_row :: "prepared \<Rightarrow> row \<Rightarrow> failure + row list" where
  "run_pipeline_row p df =
     (case resolve_row (resolution p) df of
        Inl e \<Rightarrow> Inl e
      | Inr resolved \<Rightarrow>
          all_or_failure (map (populate (fixed5 p)) (merge_master (merge_rows p) resolved)))"

definition run_pipeline ::
  "environment \<Rightarrow> row list \<Rightarrow> table \<Rightarrow> table \<Rightarrow> table \<Rightarrow> failure + row list" where
  "run_pipeline env accrual_sheet cintas_master_data cintas_master_data_2 cintas_location_codes =
     (case prepare env cintas_master_data cintas_master_data_2 cintas_location_codes of
        Inl e \<Rightarrow> Inl e
      | Inr p \<Rightarrow>
          (case all_or_failure (map (run_pipeline_row p) accrual_sheet) of
             Inl e \<Rightarrow> Inl e
           | Inr rs \<Rightarrow> Inr (concat rs)))"

section \<open>Properties of the string primitives\<close>

text \<open>The character classes as tables, for evaluation.\<close>

lemma char_eq_of_char: "(c = d) = ((of_char c :: nat) = of_char d)"
  by simp

lemma isdigit_char_code [code]: "isdigit_char c = (c \<in> set ''0123456789'')"
  unfolding isdigit_char_def Let_def set_simps insert_iff empty_iff char_eq_of_char [of c]
  by (simp del: of_char_eq_iff) arith

lemma isspace_code [code]:
  "isspace c = (c \<in> set [CHR 0x09, CHR 0x0A, CHR 0x0B, CHR 0x0C, CHR 0x0D,
                           CHR 0x1C, CHR 0x1D, CHR 0x1E, CHR 0x1F, CHR 0x20])"
  unfolding isspace_def Let_def set_simps insert_iff empty_iff char_eq_of_char [of c]
  by (simp del: of_char_eq_iff) arith

lemma isupper_char_code [code]: "isupper_char c = (c \<in> set ''ABCDEFGHIJKLMNOPQRSTUVWXYZ'')"
  unfolding isupper_char_def Let_def set_simps insert_iff empty_iff char_eq_of_char [of c]
  by (simp del: of_char_eq_iff) arith

lemma islower_char_code [code]: "islower_char c = (c \<in> set ''abcdefghijklmnopqrstuvwxyz'')"
  unfolding islower_char_def Let_def set_simps insert_iff empty_iff char_eq_of_char [of c]
  by (simp del: of_char_eq_iff) arith

lemma upper_char_letters:
  "map upper_char ''abcdefghijklmnopqrstuvwxyz'' = ''ABCDEFGHIJKLMNOPQRSTUVWXYZ''"
  by code_simp

lemma lower_char_letters:
  "map lower_char ''ABCDEFGHIJKLMNOPQRSTUVWXYZ'' = ''abcdefghijklmnopqrstuvwxyz''"
  by code_simp

lemma upper_char_code [code]:
  "upper_char c =
     (case map_of (zip ''abcdefghijklmnopqrstuvwxyz'' ''ABCDEFGHIJKLMNOPQRSTUVWXYZ'') c of
        None \<Rightarrow> c | Some u \<Rightarrow> u)"
proof (cases "islower_char c")
  case False
  then have "upper_char c = c" by (simp add: upper_char_def)
  moreover have "c \<notin> set ''abcdefghijklmnopqrstuvwxyz''"
    using False by (simp only: islower_char_code not_False_eq_True)
  ultimately show ?thesis by auto
next
  case True
  then have "c \<in> set ''abcdefghijklmnopqrstuvwxyz''"
    by (simp only: islower_char_code)
  then show ?thesis
    using upper_char_letters by auto
qed

lemma lower_char_code [code]:
  "lower_char c =
     (case map_of (zip ''ABCDEFGHIJKLMNOPQRSTUVWXYZ'' ''abcdefghijklmnopqrstuvwxyz'') c of
        None \<Rightarrow> c | Some u \<Rightarrow> u)"
proof (cases "isupper_char c")
  case False
  then have "lower_char c = c" by (simp add: lower_char_def)
  moreover have "c \<notin> set ''ABCDEFGHIJKLMNOPQRSTUVWXYZ''"
    using False by (simp only: isupper_char_code not_False_eq_True)
  ultimately show ?thesis by auto
next
  case True
  then have "c \<in> set ''ABCDEFGHIJKLMNOPQRSTUVWXYZ''"
    by (simp only: isupper_char_code)
  then show ?thesis
    using lower_char_letters by auto
qed


lemma of_char_less_256: "(of_char c :: nat) < 256"
  by (metis of_char_mod_256 mod_less_divisor zero_less_numeral)

lemma of_char_upper_char:
  "(of_char (upper_char c) :: nat) = (if islower_char c then of_char c - 32 else of_char c)"
proof -
  have "(of_char c :: nat) - 32 < 256"
    using of_char_less_256 [of c] by arith
  then show ?thesis
    by (simp add: upper_char_def)
qed

lemma upper_char_idem [simp]: "upper_char (upper_char c) = upper_char c"
proof -
  have "(of_char (upper_char (upper_char c)) :: nat) = of_char (upper_char c)"
    by (auto simp add: of_char_upper_char islower_char_def Let_def)
  then show ?thesis by simp
qed

lemma isspace_upper_char [simp]: "isspace (upper_char c) = isspace c"
  by (auto simp add: isspace_def Let_def of_char_upper_char islower_char_def)

lemma isdigit_upper_char [simp]: "isdigit_char (upper_char c) = isdigit_char c"
  by (auto simp add: isdigit_char_def Let_def of_char_upper_char islower_char_def)

lemma upper_idem [simp]: "upper (upper s) = upper s"
  by (simp add: upper_def)

lemma dropWhile_isspace_upper: "dropWhile isspace (upper s) = upper (dropWhile isspace s)"
  by (induction s) (simp_all add: upper_def)

lemma upper_rev: "upper (rev s) = rev (upper s)"
  by (simp add: upper_def rev_map)

lemma strip_upper: "strip (upper s) = upper (strip s)"
  by (simp add: strip_def dropWhile_isspace_upper upper_rev [symmetric])

lemma dropWhile_id: "s = [] \<or> \<not> P (hd s) \<Longrightarrow> dropWhile P s = s"
  by (cases s) auto

lemma strip_idem [simp]: "strip (strip s) = strip s"
proof -
  let ?a = "dropWhile isspace s"
  let ?b = "dropWhile isspace (rev ?a)"
  have b: "?b = [] \<or> \<not> isspace (hd ?b)"
    by (metis hd_dropWhile)
  have "rev ?b = [] \<or> \<not> isspace (hd (rev ?b))"
  proof (cases "?b = []")
    case True then show ?thesis by simp
  next
    case False
    then have ne: "rev ?a \<noteq> []" by fastforce
    have "?a \<noteq> []" using ne by (simp only: rev_is_Nil_conv not_False_eq_True)
    then have na: "\<not> isspace (hd ?a)" by (metis hd_dropWhile)
    have "last (rev ?a) = hd ?a" using \<open>?a \<noteq> []\<close> by (simp add: last_rev)
    moreover have "last ?b = last (rev ?a)"
      using False by (metis last_appendR takeWhile_dropWhile_id)
    moreover have "hd (rev ?b) = last ?b" using False by (simp add: hd_rev)
    ultimately show ?thesis using na by simp
  qed
  then have 1: "dropWhile isspace (rev ?b) = rev ?b" by (rule dropWhile_id)
  have 2: "dropWhile isspace (rev (rev ?b)) = ?b"
    using b by (simp add: dropWhile_id)
  show ?thesis
    unfolding strip_def by (simp only: 1 2)
qed

lemma upper_strip_idem: "upper (strip (upper (strip s))) = upper (strip s)"
  by (simp add: strip_upper)

lemma length_zfill: "length (zfill w s) = max w (length s)"
  by (auto simp add: zfill_def split: list.splits)

lemma zfill_Nil_iff [simp]: "zfill 4 s \<noteq> []"
proof
  assume "zfill 4 s = []"
  then have "max 4 (length s) = 0" using length_zfill [of 4 s] by simp
  then show False by simp
qed

lemma last_n_zfill_Nil [simp]: "last_n 4 (zfill 4 s) \<noteq> []"
proof -
  have "length (last_n 4 (zfill 4 s)) = 4"
    by (simp add: last_n_def length_zfill)
  then show ?thesis by auto
qed

lemma format_code_4_nonempty: "format_code_4 c = Some f \<Longrightarrow> f \<noteq> []"
  by (auto simp add: format_code_4_def Let_def split: if_splits)

lemma format_code_4_upper_strip:
  "\<not> isna c \<Longrightarrow> format_code_4 (PyStr (upper (strip (py_str c)))) = format_code_4 c"
  by (cases c) (simp_all add: format_code_4_def upper_strip_idem)

lemma isdigit_not_sign: "isdigit (c # rest) \<Longrightarrow> c \<noteq> CHR ''+'' \<and> c \<noteq> CHR ''-''"
  by (auto simp add: isdigit_def isdigit_char_def)





section \<open>The code normalizer\<close>



section \<open>The re-normalization against the normalizer\<close>






section \<open>Validation against the allowed codes\<close>

lemma in_codes_set_4:
  "c \<in> codes_set_raw (Location_Codes_Finder table codes) \<Longrightarrow> format_code_4 (PyStr c) = Some f
   \<Longrightarrow> f \<in> codes_set_4 (Location_Codes_Finder table codes)"
proof -
  assume c: "c \<in> codes_set_raw (Location_Codes_Finder table codes)"
    and f: "format_code_4 (PyStr c) = Some f"
  have ne: "f \<noteq> []" using f by (rule format_code_4_nonempty)
  show ?thesis
    using c f ne
    by (simp add: Location_Codes_Finder_def Let_def List.map_filter_def image_iff)
       (force split: option.splits)
qed

text \<open>
  Claim C10. For the finder that \<^verbatim>\<open>__init__\<close> builds from any master table and any
  list of codes, \<open>validate_code_in_list\<close> returns the normalized token when it is in
  \<open>codes_set_4\<close> and nothing otherwise: the look-up of the raw token in
  \<open>codes_set_raw\<close> never changes the result.
\<close>

theorem validate_code_in_list_fallback_unused:
  "validate_code_in_list (Location_Codes_Finder table codes) tok =
     (case format_code_4 tok of
        None \<Rightarrow> None
      | Some f \<Rightarrow> if f \<in> codes_set_4 (Location_Codes_Finder table codes) then Some f else None)"
proof (cases "format_code_4 tok")
  case None
  then show ?thesis by (simp add: validate_code_in_list_def)
next
  case (Some f)
  then have na: "\<not> isna tok"
    by (auto simp add: format_code_4_def split: if_splits)
  have ne: "f \<noteq> []" using Some by (rule format_code_4_nonempty)
  let ?self = "Location_Codes_Finder table codes"
  let ?raw = "upper (strip (py_str tok))"
  have "f \<in> codes_set_4 ?self" if "?raw \<in> codes_set_raw ?self"
    using that in_codes_set_4 [of ?raw table codes f] format_code_4_upper_strip [OF na] Some
    by simp
  then show ?thesis
    using Some ne by (auto simp add: validate_code_in_list_def Let_def)
qed

section \<open>The address index\<close>

lemma dict_step_other:
  "list_all (\<lambda>kc. fst kc \<noteq> Some k) kcs \<Longrightarrow>
   foldl (\<lambda>m (k, c). case k of None \<Rightarrow> m | Some k' \<Rightarrow> if k' = [] then m else m(k' \<mapsto> c)) m kcs k
     = m k"
  by (induction kcs arbitrary: m) (auto split: option.splits)

lemma dict_of_pairs_last:
  assumes "k \<noteq> []" and "list_all (\<lambda>kc. fst kc \<noteq> Some k) later"
  shows "dict_of_pairs (earlier @ (Some k, c) # later) k = Some c"
  using assms by (simp add: dict_of_pairs_def dict_step_other)

text \<open>
  Claim C3, as amended. In the address index that \<^verbatim>\<open>__init__\<close> builds, rows with the
  same combined-address key resolve last-write-wins: the index maps a key to the code of
  the last row of the master table that produces it, whatever the rows before it hold.
\<close>

theorem address_index_last_write_wins:
  assumes "master_key r = Some k" and "k \<noteq> []"
    and "list_all (\<lambda>r'. master_key r' \<noteq> Some k) later"
  shows "address_to_code (Location_Codes_Finder (earlier @ r # later) codes) k
           = Some (master_code r)"
proof -
  have "list_all (\<lambda>kc. fst kc \<noteq> Some k) (zip (map master_key later) (map master_code later))"
    using assms(3) by (induction later) simp_all
  then have "dict_of_pairs
      (zip (map master_key earlier) (map master_code earlier) @
       (Some k, master_code r) # zip (map master_key later) (map master_code later)) k
      = Some (master_code r)"
    using assms(2) by (rule dict_of_pairs_last [rotated])
  then show ?thesis
    using assms(1) by (simp add: Location_Codes_Finder_def Let_def)
qed

theorem address_index_last_write_wins_witness:
  "master_key [(''Loc_Address'', PyStr ''1 Main Street''), (''Loc_City'', PyStr ''Mason''),
               (''Loc_ST'', PyStr ''OH''), (''Loc Code'', PyStr ''0002'')] = Some ''1MASONOH'' \<and>
   address_to_code (Location_Codes_Finder
     ([[(''Loc_Address'', PyStr ''1 Main St''), (''Loc_City'', PyStr ''Mason''),
        (''Loc_ST'', PyStr ''OH''), (''Loc Code'', PyStr ''0001'')]] @
      [(''Loc_Address'', PyStr ''1 Main Street''), (''Loc_City'', PyStr ''Mason''),
       (''Loc_ST'', PyStr ''OH''), (''Loc Code'', PyStr ''0002'')] #
      [[(''Loc_Address'', PyStr ''9 Elm St''), (''Loc_City'', PyStr ''Mason''),
        (''Loc_ST'', PyStr ''OH''), (''Loc Code'', PyStr ''0003'')]]) []) ''1MASONOH''
     = Some ''0002''"
proof -
  let ?r = "[(''Loc_Address'', PyStr ''1 Main Street''), (''Loc_City'', PyStr ''Mason''),
             (''Loc_ST'', PyStr ''OH''), (''Loc Code'', PyStr ''0002'')]"
  let ?l = "[[(''Loc_Address'', PyStr ''9 Elm St''), (''Loc_City'', PyStr ''Mason''),
              (''Loc_ST'', PyStr ''OH''), (''Loc Code'', PyStr ''0003'')]]"
  have k: "master_key ?r = Some ''1MASONOH''" by code_simp
  have ne: "''1MASONOH'' \<noteq> []" by simp
  have l: "list_all (\<lambda>r'. master_key r' \<noteq> Some ''1MASONOH'') ?l" by code_simp
  have c: "master_code ?r = ''0002''" by code_simp
  show ?thesis
    using address_index_last_write_wins [OF k ne l, where codes = "[]" and earlier =
        "[[(''Loc_Address'', PyStr ''1 Main St''), (''Loc_City'', PyStr ''Mason''),
           (''Loc_ST'', PyStr ''OH''), (''Loc Code'', PyStr ''0001'')]]"] k c
    by simp
qed

text \<open>
  Claim C3 as stated fails on a master table of two rows with the key
  \<^verbatim>\<open>1MASONOH\<close> and the codes \<^verbatim>\<open>0001\<close> and \<^verbatim>\<open>0002\<close>: the index holds the code of
  the later row.
\<close>

theorem address_index_first_write_loses:
  "master_key [(''Loc_Address'', PyStr ''1 Main St''), (''Loc_City'', PyStr ''Mason''),
               (''Loc_ST'', PyStr ''OH''), (''Loc Code'', PyStr ''0001'')] = Some ''1MASONOH'' \<and>
   master_key [(''Loc_Address'', PyStr ''1 Main Street''), (''Loc_City'', PyStr ''Mason''),
               (''Loc_ST'', PyStr ''OH''), (''Loc Code'', PyStr ''0002'')] = Some ''1MASONOH'' \<and>
   master_code [(''Loc_Address'', PyStr ''1 Main St''), (''Loc_City'', PyStr ''Mason''),
               (''Loc_ST'', PyStr ''OH''), (''Loc Code'', PyStr ''0001'')] = ''0001'' \<and>
   address_to_code (Location_Codes_Finder
     [[(''Loc_Address'', PyStr ''1 Main St''), (''Loc_City'', PyStr ''Mason''),
       (''Loc_ST'', PyStr ''OH''), (''Loc Code'', PyStr ''0001'')],
      [(''Loc_Address'', PyStr ''1 Main Street''), (''Loc_City'', PyStr ''Mason''),
       (''Loc_ST'', PyStr ''OH''), (''Loc Code'', PyStr ''0002'')]] []) ''1MASONOH''
     = Some ''0002''"
  by code_simp

lemma map_of_row_set: "map_of (row_set r k v) k' = (if k' = k then Some v else map_of r k')"
  by (induction r) auto

lemma row_get_row_set: "row_get (row_set r k v) k' d = (if k' = k then v else row_get r k' d)"
  by (simp add: row_get_def map_of_row_set)

lemma startswith_iff: "startswith s p = (\<exists>post. s = p @ post)"
  by (metis append_eq_conv_conj startswith_def)

lemma is_substring_iff: "is_substring p s = (\<exists>pre post. s = pre @ p @ post)"
proof (induction s)
  case Nil
  then show ?case by auto
next
  case (Cons c cs)
  show ?case
  proof
    assume "is_substring p (c # cs)"
    then consider "startswith (c # cs) p" | "is_substring p cs" by auto
    then show "\<exists>pre post. c # cs = pre @ p @ post"
    proof cases
      case 1
      then obtain post where "c # cs = p @ post" by (auto simp add: startswith_iff)
      then have "c # cs = [] @ p @ post" by simp
      then show ?thesis by blast
    next
      case 2
      then obtain pre post where "cs = pre @ p @ post" using Cons.IH by auto
      then have "c # cs = (c # pre) @ p @ post" by simp
      then show ?thesis by blast
    qed
  next
    assume "\<exists>pre post. c # cs = pre @ p @ post"
    then obtain pre post where e: "c # cs = pre @ p @ post" by auto
    show "is_substring p (c # cs)"
    proof (cases pre)
      case Nil
      then have "startswith (c # cs) p" using e by (auto simp add: startswith_iff)
      then show ?thesis by simp
    next
      case (Cons a pre')
      then have "cs = pre' @ p @ post" using e by simp
      then have "is_substring p cs" using Cons.IH by blast
      then show ?thesis by simp
    qed
  qed
qed

section \<open>The responsible party\<close>

text \<open>
  Claim C5, as amended. When the final consignor type, trimmed and uppercased, is
  \<^verbatim>\<open>MM\<close> and the final consignee type, trimmed, uppercased and with its space
  characters removed, is \<^verbatim>\<open>CADC\<close>, the responsible party is \<^verbatim>\<open>037Q\<close>, whatever the
  codes, the carrier and the two type tables are.
\<close>

theorem manufacturer_canadian_dc_override:
  assumes "upper (strip (py_str (row_get r ''Final Consignor Type'' (PyStr [])))) = ''MM''"
    and "remove_spaces (upper (strip (py_str (row_get r ''Final Consignee Type'' (PyStr [])))))
           = ''CADC''"
  shows "determine_profit_center mappings matrix r = Inr (PyStr ''037Q'')"
  using assms by (simp add: determine_profit_center_def)

theorem manufacturer_canadian_dc_override_witness:
  "determine_profit_center
     (Map.empty((''MM'', ''CA DC'') \<mapsto> ''0001''))
     (Map.empty((''MM'', ''CA DC'') \<mapsto> ''ORIGIN''))
     [(''Carrier Name'', PyStr ''Omnitrans Inc''),
      (''Extracted Consignee Code'', PyStr ''0K35''),
      (''Final Consignor Code'', PyStr ''0002''), (''Final Consignee Code'', PyStr ''0K35''),
      (''Final Consignor Type'', PyStr ''MM''), (''Final Consignee Type'', PyStr ''CA DC'')]
   = Inr (PyStr ''037Q'')"
proof -
  let ?r = "[(''Carrier Name'', PyStr ''Omnitrans Inc''),
      (''Extracted Consignee Code'', PyStr ''0K35''),
      (''Final Consignor Code'', PyStr ''0002''), (''Final Consignee Code'', PyStr ''0K35''),
      (''Final Consignor Type'', PyStr ''MM''), (''Final Consignee Type'', PyStr ''CA DC'')]"
  have a: "upper (strip (py_str (row_get ?r ''Final Consignor Type'' (PyStr [])))) = ''MM''"
    by code_simp
  have b: "remove_spaces (upper (strip (py_str (row_get ?r ''Final Consignee Type'' (PyStr [])))))
           = ''CADC''"
    by code_simp
  show ?thesis
    by (rule manufacturer_canadian_dc_override [OF a b])
qed

text \<open>
  Claim C5 as stated fails on the consignee type \<^verbatim>\<open>CA<TAB>DC\<close>: with all white space
  removed it is \<^verbatim>\<open>CADC\<close>, but the code removes only spaces from the inside of the
  type, the override does not apply, and with empty tables the result is
  \<^verbatim>\<open>UNKNOWN\<close>.
\<close>

theorem tab_in_consignee_type_counterexample:
  "upper (strip (py_str (row_get
      [(''Final Consignor Code'', PyStr ''0002''), (''Final Consignee Code'', PyStr ''0001''),
       (''Final Consignor Type'', PyStr ''MM''),
       (''Final Consignee Type'', PyStr (''CA'' @ [CHR 0x09] @ ''DC''))]
      ''Final Consignor Type'' (PyStr [])))) = ''MM'' \<and>
   remove_whitespace (upper (strip (py_str (row_get
      [(''Final Consignor Code'', PyStr ''0002''), (''Final Consignee Code'', PyStr ''0001''),
       (''Final Consignor Type'', PyStr ''MM''),
       (''Final Consignee Type'', PyStr (''CA'' @ [CHR 0x09] @ ''DC''))]
      ''Final Consignee Type'' (PyStr []))))) = ''CADC'' \<and>
   determine_profit_center Map.empty Map.empty
      [(''Final Consignor Code'', PyStr ''0002''), (''Final Consignee Code'', PyStr ''0001''),
       (''Final Consignor Type'', PyStr ''MM''),
       (''Final Consignee Type'', PyStr (''CA'' @ [CHR 0x09] @ ''DC''))]
     = Inr (PyStr ''UNKNOWN'')"
  by code_simp



section \<open>The GL account\<close>

lemma py_str_account: "py_str (PyInt 621000) = ''621000''" "py_str (PyInt 621020) = ''621020''"
  by (simp_all add: digits_of_int.simps digit_char_def)

lemma force_excel_text_account:
  "force_excel_text (PyStr ''621000'') = ''621000''" "force_excel_text (PyStr ''621020'') = ''621020''"
  by code_simp+

text \<open>
  Claim C7. The column \<^verbatim>\<open>Account # EJ\<close> of every row is \<^verbatim>\<open>621000\<close> when the text
  of the profit center contains \<^verbatim>\<open>G59\<close>, whatever the other columns hold; otherwise
  \<^verbatim>\<open>621000\<close> when the final consignee code equals the responsible party, and
  \<^verbatim>\<open>621020\<close> in every remaining case.
\<close>

theorem gl_account_number:
  "map_of (gl_account_step r) ''Account # EJ'' =
     Some (PyStr
       (if \<exists>pre post. py_str (row_get r ''Profit Center EJ'' (PyStr [])) = pre @ ''G59'' @ post
          then ''621000''
        else if py_eq (row_get r ''Final Consignee Code'' PyNone) (row_get r ''Responsible Party'' PyNone)
          then ''621000''
        else ''621020''))"
  by (simp add: gl_account_step_def map_of_row_set account_number_def is_substring_iff
      py_str_account force_excel_text_account del: py_str.simps)

section \<open>The address-sanity wipe\<close>

lemma word_here_iff:
  "word_here s w = (\<exists>post. s = w @ post \<and> (post = [] \<or> \<not> isword_char (hd post)))"
proof
  assume "word_here s w"
  then have a: "startswith s w" and b: "case drop (length w) s of [] \<Rightarrow> True | d # _ \<Rightarrow> \<not> isword_char d"
    by (simp_all add: word_here_def)
  from a obtain post where p: "s = w @ post" by (auto simp add: startswith_iff)
  with b have "post = [] \<or> \<not> isword_char (hd post)" by (cases post) auto
  with p show "\<exists>post. s = w @ post \<and> (post = [] \<or> \<not> isword_char (hd post))" by blast
next
  assume "\<exists>post. s = w @ post \<and> (post = [] \<or> \<not> isword_char (hd post))"
  then obtain post where p: "s = w @ post" and q: "post = [] \<or> \<not> isword_char (hd post)" by blast
  have "startswith s w" using p by (auto simp add: startswith_iff)
  moreover have "case drop (length w) s of [] \<Rightarrow> True | d # _ \<Rightarrow> \<not> isword_char d"
    using p q by (cases post) auto
  ultimately show "word_here s w" by (simp add: word_here_def)
qed

lemma search_words_iff:
  assumes "[] \<notin> set ws"
  shows "search_words ws prev s =
     (\<exists>w pre post. w \<in> set ws \<and> s = pre @ w @ post
        \<and> (if pre = [] then boundary_before prev else \<not> isword_char (last pre))
        \<and> (post = [] \<or> \<not> isword_char (hd post)))"
proof (induction s arbitrary: prev)
  case Nil
  show ?case using assms by auto
next
  case (Cons c cs)
  let ?R = "\<lambda>prev s. \<exists>w pre post. w \<in> set ws \<and> s = pre @ w @ post
        \<and> (if pre = [] then boundary_before prev else \<not> isword_char (last pre))
        \<and> (post = [] \<or> \<not> isword_char (hd post))"
  have here: "(boundary_before prev \<and> list_ex (word_here (c # cs)) ws) =
      (\<exists>w post. w \<in> set ws \<and> c # cs = [] @ w @ post \<and> boundary_before prev
         \<and> (post = [] \<or> \<not> isword_char (hd post)))"
    by (auto simp add: list_ex_iff word_here_iff)
  have later: "?R (Some c) cs =
      (\<exists>w pre post. w \<in> set ws \<and> c # cs = (c # pre) @ w @ post
         \<and> (if c # pre = [] then boundary_before prev else \<not> isword_char (last (c # pre)))
         \<and> (post = [] \<or> \<not> isword_char (hd post)))"
    by (auto simp add: boundary_before_def)
  have split: "?R prev (c # cs) =
      ((\<exists>w post. w \<in> set ws \<and> c # cs = [] @ w @ post \<and> boundary_before prev
          \<and> (post = [] \<or> \<not> isword_char (hd post))) \<or>
       (\<exists>w pre post. w \<in> set ws \<and> c # cs = (c # pre) @ w @ post
          \<and> (if c # pre = [] then boundary_before prev else \<not> isword_char (last (c # pre)))
          \<and> (post = [] \<or> \<not> isword_char (hd post))))"
  proof
    assume "?R prev (c # cs)"
    then obtain w pre post where w: "w \<in> set ws" and e: "c # cs = pre @ w @ post"
      and b: "if pre = [] then boundary_before prev else \<not> isword_char (last pre)"
      and a: "post = [] \<or> \<not> isword_char (hd post)" by blast
    show "(\<exists>w post. w \<in> set ws \<and> c # cs = [] @ w @ post \<and> boundary_before prev
          \<and> (post = [] \<or> \<not> isword_char (hd post))) \<or>
       (\<exists>w pre post. w \<in> set ws \<and> c # cs = (c # pre) @ w @ post
          \<and> (if c # pre = [] then boundary_before prev else \<not> isword_char (last (c # pre)))
          \<and> (post = [] \<or> \<not> isword_char (hd post)))"
    proof (cases pre)
      case Nil
      then show ?thesis using w e b a by auto
    next
      case (Cons x pre')
      then have "x = c" using e by simp
      then show ?thesis using Cons w e b a by blast
    qed
  next
    assume "(\<exists>w post. w \<in> set ws \<and> c # cs = [] @ w @ post \<and> boundary_before prev
          \<and> (post = [] \<or> \<not> isword_char (hd post))) \<or>
       (\<exists>w pre post. w \<in> set ws \<and> c # cs = (c # pre) @ w @ post
          \<and> (if c # pre = [] then boundary_before prev else \<not> isword_char (last (c # pre)))
          \<and> (post = [] \<or> \<not> isword_char (hd post)))"
    then show "?R prev (c # cs)"
    proof
      assume "\<exists>w post. w \<in> set ws \<and> c # cs = [] @ w @ post \<and> boundary_before prev
          \<and> (post = [] \<or> \<not> isword_char (hd post))"
      then obtain w post where "w \<in> set ws" "c # cs = [] @ w @ post" "boundary_before prev"
        "post = [] \<or> \<not> isword_char (hd post)" by blast
      then have "w \<in> set ws \<and> c # cs = [] @ w @ post
        \<and> (if ([]::string) = [] then boundary_before prev else \<not> isword_char (last []))
        \<and> (post = [] \<or> \<not> isword_char (hd post))" by simp
      then show ?thesis by blast
    next
      assume "\<exists>w pre post. w \<in> set ws \<and> c # cs = (c # pre) @ w @ post
          \<and> (if c # pre = [] then boundary_before prev else \<not> isword_char (last (c # pre)))
          \<and> (post = [] \<or> \<not> isword_char (hd post))"
      then obtain w pre post where "w \<in> set ws" "c # cs = (c # pre) @ w @ post"
        "\<not> isword_char (last (c # pre))" "post = [] \<or> \<not> isword_char (hd post)" by auto
      then have "w \<in> set ws \<and> c # cs = (c # pre) @ w @ post
        \<and> (if c # pre = [] then boundary_before prev else \<not> isword_char (last (c # pre)))
        \<and> (post = [] \<or> \<not> isword_char (hd post))" by simp
      then show ?thesis by blast
    qed
  qed
  show ?case
    unfolding split search_words.simps here Cons.IH later ..
qed

lemma contains_cintas_or_mat_iff:
  "contains_cintas_or_mat s = (whole_word_in ''CINTAS'' s \<or> whole_word_in ''MAT'' s)"
proof -
  have "[] \<notin> set [''CINTAS'', ''MAT'']" by simp
  then have "search_words [''CINTAS'', ''MAT''] None s =
     (\<exists>w pre post. w \<in> set [''CINTAS'', ''MAT''] \<and> s = pre @ w @ post
        \<and> (if pre = [] then boundary_before None else \<not> isword_char (last pre))
        \<and> (post = [] \<or> \<not> isword_char (hd post)))"
    by (rule search_words_iff)
  also have "\<dots> = (whole_word_in ''CINTAS'' s \<or> whole_word_in ''MAT'' s)"
  proof -
    have i: "(if pre = [] then True else \<not> isword_char (last pre)) =
        (pre = [] \<or> \<not> isword_char (last pre))" for pre :: string
      by simp
    show ?thesis
      unfolding whole_word_in_def boundary_before_def option.case i
      by (simp only: set_simps insert_iff empty_iff) blast
  qed
  finally show ?thesis by (simp add: contains_cintas_or_mat_def)
qed

lemma col_row_set: "col (row_set df k v) k' = (if k' = k then v else col df k')"
  by (simp add: col_def row_get_row_set)

text \<open>
  Claim C4. For each party: when the text-extracted code is present, the party's name
  (uppercased) contains neither \<^verbatim>\<open>CINTAS\<close> nor \<^verbatim>\<open>MAT\<close> as a whole word, and the
  party's combined address is not in the set of master combined addresses, the address
  checker replaces the extracted code by the empty string. Whatever the row holds, every
  column other than the two extracted codes, the type-field and address-lookup candidates
  among them, is left as it was.
\<close>

theorem address_sanity_wipe:
  "(has_code (col df ''Extracted Consignor Code'')
      \<and> \<not> whole_word_in ''CINTAS'' (upper (as_text (col df ''Consignor'')))
      \<and> \<not> whole_word_in ''MAT'' (upper (as_text (col df ''Consignor'')))
      \<and> as_text (col df ''Consignor_Combined_Address'') \<notin> master_set
    \<longrightarrow> col (address_checker master_set df) ''Extracted Consignor Code'' = PyStr []) \<and>
   (has_code (col df ''Extracted Consignee Code'')
      \<and> \<not> whole_word_in ''CINTAS'' (upper (as_text (col df ''Consignee'')))
      \<and> \<not> whole_word_in ''MAT'' (upper (as_text (col df ''Consignee'')))
      \<and> as_text (col df ''Consignee_Combined_Address'') \<notin> master_set
    \<longrightarrow> col (address_checker master_set df) ''Extracted Consignee Code'' = PyStr []) \<and>
   (\<forall>k. k \<noteq> ''Extracted Consignor Code'' \<and> k \<noteq> ''Extracted Consignee Code''
      \<longrightarrow> map_of (address_checker master_set df) k = map_of df k)"
  by (simp add: address_checker_def wipe_mask_def Let_def contains_cintas_or_mat_iff
      col_row_set map_of_row_set)

theorem address_sanity_wipe_witness:
  "has_code (col [(''Consignor'', PyStr ''Acme 777 plant''), (''Consignee'', PyStr ''Bolt 95''),
                  (''Consignor_Combined_Address'', PyStr ''5TROYMI''),
                  (''Consignee_Combined_Address'', PyNone),
                  (''Extracted Consignor Code'', PyStr ''0777''),
                  (''Extracted Consignee Code'', PyStr ''0095''),
                  (''Org Type Consignor Code'', PyStr ''0777'')] ''Extracted Consignor Code'') \<and>
   has_code (col [(''Consignor'', PyStr ''Acme 777 plant''), (''Consignee'', PyStr ''Bolt 95''),
                  (''Consignor_Combined_Address'', PyStr ''5TROYMI''),
                  (''Consignee_Combined_Address'', PyNone),
                  (''Extracted Consignor Code'', PyStr ''0777''),
                  (''Extracted Consignee Code'', PyStr ''0095''),
                  (''Org Type Consignor Code'', PyStr ''0777'')] ''Extracted Consignee Code'') \<and>
   col (address_checker {''100MASONOH''}
          [(''Consignor'', PyStr ''Acme 777 plant''), (''Consignee'', PyStr ''Bolt 95''),
           (''Consignor_Combined_Address'', PyStr ''5TROYMI''),
           (''Consignee_Combined_Address'', PyNone),
           (''Extracted Consignor Code'', PyStr ''0777''),
           (''Extracted Consignee Code'', PyStr ''0095''),
           (''Org Type Consignor Code'', PyStr ''0777'')]) ''Extracted Consignor Code'' = PyStr [] \<and>
   col (address_checker {''100MASONOH''}
          [(''Consignor'', PyStr ''Acme 777 plant''), (''Consignee'', PyStr ''Bolt 95''),
           (''Consignor_Combined_Address'', PyStr ''5TROYMI''),
           (''Consignee_Combined_Address'', PyNone),
           (''Extracted Consignor Code'', PyStr ''0777''),
           (''Extracted Consignee Code'', PyStr ''0095''),
           (''Org Type Consignor Code'', PyStr ''0777'')]) ''Extracted Consignee Code'' = PyStr [] \<and>
   map_of (address_checker {''100MASONOH''}
          [(''Consignor'', PyStr ''Acme 777 plant''), (''Consignee'', PyStr ''Bolt 95''),
           (''Consignor_Combined_Address'', PyStr ''5TROYMI''),
           (''Consignee_Combined_Address'', PyNone),
           (''Extracted Consignor Code'', PyStr ''0777''),
           (''Extracted Consignee Code'', PyStr ''0095''),
           (''Org Type Consignor Code'', PyStr ''0777'')]) ''Org Type Consignor Code''
     = Some (PyStr ''0777'')"
proof -
  let ?df = "[(''Consignor'', PyStr ''Acme 777 plant''), (''Consignee'', PyStr ''Bolt 95''),
              (''Consignor_Combined_Address'', PyStr ''5TROYMI''),
              (''Consignee_Combined_Address'', PyNone),
              (''Extracted Consignor Code'', PyStr ''0777''),
              (''Extracted Consignee Code'', PyStr ''0095''),
              (''Org Type Consignor Code'', PyStr ''0777'')]"
  let ?m = "{''100MASONOH''}"
  have a1: "has_code (col ?df ''Extracted Consignor Code'')" by code_simp
  have a2: "\<not> contains_cintas_or_mat (upper (as_text (col ?df ''Consignor'')))" by code_simp
  have a3: "as_text (col ?df ''Consignor_Combined_Address'') \<notin> ?m" by code_simp
  have b1: "has_code (col ?df ''Extracted Consignee Code'')" by code_simp
  have b2: "\<not> contains_cintas_or_mat (upper (as_text (col ?df ''Consignee'')))" by code_simp
  have b3: "as_text (col ?df ''Consignee_Combined_Address'') \<notin> ?m" by code_simp
  have f: "map_of ?df ''Org Type Consignor Code'' = Some (PyStr ''0777'')" by simp
  have k: "''Org Type Consignor Code'' \<noteq> ''Extracted Consignor Code'' \<and>
           ''Org Type Consignor Code'' \<noteq> ''Extracted Consignee Code''" by simp
  note t = address_sanity_wipe [of ?df ?m]
  have c1: "col (address_checker ?m ?df) ''Extracted Consignor Code'' = PyStr []"
    using t a1 a2 a3 unfolding contains_cintas_or_mat_iff by blast
  have c2: "col (address_checker ?m ?df) ''Extracted Consignee Code'' = PyStr []"
    using t b1 b2 b3 unfolding contains_cintas_or_mat_iff by blast
  have c3: "map_of (address_checker ?m ?df) ''Org Type Consignor Code'' = Some (PyStr ''0777'')"
    using t k f by metis
  show ?thesis
    using a1 b1 c1 c2 c3 by blast
qed

section \<open>The precedence chain\<close>

lemma clean_blank_cases:
  "clean_blank v = (if present v then v else if isna v then v else PyNaN)"
  by (cases v) (simp_all add: clean_blank_def present_def)



section \<open>The pipeline applied to its own output\<close>

text \<open>
  Claim C9 as stated fails on a sheet of one row: the pipeline succeeds on it, with the
  responsible party \<^verbatim>\<open>0095\<close> and its profit center, and then fails on its own output.
  The output has the column \<^verbatim>\<open>Profit Center EJ\<close> and no column \<^verbatim>\<open>ProfitCtr\<close>, so
  the second merge brings \<^verbatim>\<open>ProfitCtr\<close> in again, the renaming gives a second column
  \<^verbatim>\<open>Profit Center EJ\<close>, and reading that label as text raises \<^verbatim>\<open>AttributeError\<close>.
\<close>

theorem run_pipeline_twice_fails:
  "run_pipeline
     \<lparr> env_special_type_mappings = Map.empty,
       env_coding_matrix = Map.empty((''PL'', ''US DC'') \<mapsto> ''DESTINATION''),
       env_set_order = remdups, env_fixed5 = id \<rparr>
     [[(''Shipper'', PyStr ''Cintas 777''), (''Consignee'', PyStr ''Cintas 95''),
       (''Origin Address'', PyStr ''5 Oak Rd''), (''Origin City'', PyStr ''Troy''),
       (''Origin State'', PyStr ''MI''), (''Dest Address'', PyStr ''100 Main St''),
       (''Dest City'', PyStr ''Mason''), (''Dest State'', PyStr ''OH'')]]
     \<lparr> table_columns = [''Loc_Address'', ''Loc_City'', ''Loc_ST'', ''Loc Code''],
       table_rows = [[(''Loc_Address'', PyStr ''100 Main St''), (''Loc_City'', PyStr ''Mason''),
                      (''Loc_ST'', PyStr ''OH''), (''Loc Code'', PyInt 95)]] \<rparr>
     \<lparr> table_columns = [''Loc Code'', ''Type Code'', ''ProfitCtr'', ''Cost Center''],
       table_rows = [[(''Loc Code'', PyInt 95), (''Type Code'', PyStr ''US DC''),
                      (''ProfitCtr'', PyStr ''P095''), (''Cost Center'', PyStr ''C-095'')],
                     [(''Loc Code'', PyStr ''777''), (''Type Code'', PyStr ''PL''),
                      (''ProfitCtr'', PyStr ''P777''), (''Cost Center'', PyStr ''C-777'')]] \<rparr>
     \<lparr> table_columns = [''Codes''],
       table_rows = [[(''Codes'', PyInt 95)], [(''Codes'', PyStr ''777'')]] \<rparr>
   = Inr [[(''Automation Accuracy'', PyInt 0), (''Profit Center EJ'', PyStr ''P095''),
           (''Cost Center EJ'', PyStr ''C-095''), (''Account # EJ'', PyStr ''621000''),
           (''Shipper'', PyStr ''Cintas 777''), (''Consignee'', PyStr ''Cintas 95''),
           (''Origin Address'', PyStr ''5 Oak Rd''), (''Origin City'', PyStr ''Troy''),
           (''Origin State'', PyStr ''MI''), (''Dest Address'', PyStr ''100 Main St''),
           (''Dest City'', PyStr ''Mason''), (''Dest State'', PyStr ''OH''),
           (''Consignor'', PyStr ''Cintas 777''),
           (''Destination Address'', PyStr ''100 Main St''),
           (''Destination City'', PyStr ''Mason''), (''Destination State'', PyStr ''OH''),
           (''Consignor_Combined_Address'', PyStr ''5TROYMI''),
           (''Consignee_Combined_Address'', PyStr ''100MASONOH''),
           (''Extracted Consignor Code'', PyStr ''0777''),
           (''Extracted Consignee Code'', PyStr ''0095''),
           (''Org Type Consignor Code'', PyStr []), (''Dest Type Consignee Code'', PyStr []),
           (''Addr_Lookup_Consignor_Code'', PyStr []),
           (''Addr_Lookup_Consignee_Code'', PyStr ''0095''),
           (''Final Consignor Code'', PyStr ''0777''), (''Final Consignee Code'', PyStr ''0095''),
           (''Final Consignor Type'', PyStr ''PL''), (''Final Consignee Type'', PyStr ''US DC''),
           (''Responsible Party'', PyStr ''0095''), (''Loc Code'', PyStr ''0095'')]] \<and>
   run_pipeline
     \<lparr> env_special_type_mappings = Map.empty,
       env_coding_matrix = Map.empty((''PL'', ''US DC'') \<mapsto> ''DESTINATION''),
       env_set_order = remdups, env_fixed5 = id \<rparr>
     [[(''Automation Accuracy'', PyInt 0), (''Profit Center EJ'', PyStr ''P095''),
       (''Cost Center EJ'', PyStr ''C-095''), (''Account # EJ'', PyStr ''621000''),
       (''Shipper'', PyStr ''Cintas 777''), (''Consignee'', PyStr ''Cintas 95''),
       (''Origin Address'', PyStr ''5 Oak Rd''), (''Origin City'', PyStr ''Troy''),
       (''Origin State'', PyStr ''MI''), (''Dest Address'', PyStr ''100 Main St''),
       (''Dest City'', PyStr ''Mason''), (''Dest State'', PyStr ''OH''),
       (''Consignor'', PyStr ''Cintas 777''),
       (''Destination Address'', PyStr ''100 Main St''),
       (''Destination City'', PyStr ''Mason''), (''Destination State'', PyStr ''OH''),
       (''Consignor_Combined_Address'', PyStr ''5TROYMI''),
       (''Consignee_Combined_Address'', PyStr ''100MASONOH''),
       (''Extracted Consignor Code'', PyStr ''0777''),
       (''Extracted Consignee Code'', PyStr ''0095''),
       (''Org Type Consignor Code'', PyStr []), (''Dest Type Consignee Code'', PyStr []),
       (''Addr_Lookup_Consignor_Code'', PyStr []),
       (''Addr_Lookup_Consignee_Code'', PyStr ''0095''),
       (''Final Consignor Code'', PyStr ''0777''), (''Final Consignee Code'', PyStr ''0095''),
       (''Final Consignor Type'', PyStr ''PL''), (''Final Consignee Type'', PyStr ''US DC''),
       (''Responsible Party'', PyStr ''0095''), (''Loc Code'', PyStr ''0095'')]]
     \<lparr> table_columns = [''Loc_Address'', ''Loc_City'', ''Loc_ST'', ''Loc Code''],
       table_rows = [[(''Loc_Address'', PyStr ''100 Main St''), (''Loc_City'', PyStr ''Mason''),
                      (''Loc_ST'', PyStr ''OH''), (''Loc Code'', PyInt 95)]] \<rparr>
     \<lparr> table_columns = [''Loc Code'', ''Type Code'', ''ProfitCtr'', ''Cost Center''],
       table_rows = [[(''Loc Code'', PyInt 95), (''Type Code'', PyStr ''US DC''),
                      (''ProfitCtr'', PyStr ''P095''), (''Cost Center'', PyStr ''C-095'')],
                     [(''Loc Code'', PyStr ''777''), (''Type Code'', PyStr ''PL''),
                      (''ProfitCtr'', PyStr ''P777''), (''Cost Center'', PyStr ''C-777'')]] \<rparr>
     \<lparr> table_columns = [''Codes''],
       table_rows = [[(''Codes'', PyInt 95)], [(''Codes'', PyStr ''777'')]] \<rparr>
   = Inl AttributeError"
  by code_simp

end
